theory Spec2Isabelle
  imports
    Complex_Main
    "HOL-Library.Word"
    "HOL-Library.Multiset"
    "HOL-Library.Sublist"
    "HOL-Library.List_Lexorder"
    "HOL-Library.Char_ord"
begin

section \<open>The listening-history dashboard (dashboard.py)\<close>

text \<open>
  The script loads a CSV into a data frame, filters it by three sidebar selections and
  renders a metric, two Top-10 tables and three charts. A data frame is modelled as the
  list of its rows in index order; a Series as the list of its (index, value) pairs.
  Columns of integers are \<open>int64\<close>: arithmetic on them wraps around. A text cell that
  is empty in the file is \<open>NaN\<close> in the frame.
\<close>

subsection \<open>Data\<close>

type_synonym int64 = "64 word"

text \<open>
  A \<open>datetime64[ns]\<close> cell: nanoseconds since 1970-01-01T00:00, or \<open>NaT\<close> (\<open>None\<close>).
\<close>

type_synonym timestamp = int

text \<open>
  A text cell as \<open>read_csv\<close> leaves it: the text, or \<open>NaN\<close> (\<open>None\<close>) where the
  file has nothing.
\<close>

type_synonym cell = "string option"

text \<open>
  One row with the six required columns. The type of the \<open>ts\<close> cell changes during
  the load: text as read from the file, then \<open>timestamp option\<close>. The three columns
  the sidebar filters on have cells of type \<open>'c\<close>: \<open>cell\<close> in a frame as it is
  read, \<open>string\<close> where every cell is known to hold text.
\<close>

record ('t, 'c) row =
  ts :: 't
  artist_name :: 'c
  album_name :: 'c
  track_name :: string
  ms_played :: int64
  platform :: 'c

text \<open>
  A row after \<open>df["playtime_s"] = df["ms_played"] / 1000\<close>. The quotient is a float
  in the script; it is kept here as the exact rational.
\<close>

record ('t, 'c) played_row = "('t, 'c) row" +
  playtime_s :: rat

text \<open>
  What \<open>path.exists()\<close> and \<open>pd.read_csv(path)\<close> find: no file, a file that
  \<open>read_csv\<close> raises on, or a table with its header and its rows.
\<close>

datatype csv_file =
  No_File
  | Bad_File
  | Csv_File "string list" "(string, cell) row list"

text \<open>
  The ways the script ends before it renders the page: the four places where it calls
  \<open>st.stop()\<close>, and the two exceptions that the sidebar can raise, the \<open>TypeError\<close>
  of \<open>sorted\<close> and the \<open>StreamlitAPIException\<close> of \<open>st.multiselect\<close>.
\<close>

datatype halt =
  File_Not_Found
  | Read_Error
  | Missing_Columns "string set"
  | No_Data
  | Type_Error
  | Api_Exception

subsection \<open>Constants\<close>

definition REQUIRED_COLS :: "string set" where
  "REQUIRED_COLS =
     {''ts'', ''artist_name'', ''album_name'', ''track_name'', ''ms_played'', ''platform''}"

subsection \<open>load_data\<close>

text \<open>
  \<open>pd.to_datetime(df["ts"], errors="coerce")\<close>: the parser belongs to pandas and is a
  parameter \<open>parse\<close>, applied cell by cell; a cell it cannot read becomes \<open>NaT\<close>.
\<close>

definition to_datetime ::
  "(string \<Rightarrow> timestamp option) \<Rightarrow> (string, 'c) row list \<Rightarrow> (timestamp option, 'c) row list" where
  "to_datetime parse df =
     map (\<lambda>r. \<lparr>ts = parse (ts r), artist_name = artist_name r, album_name = album_name r,
               track_name = track_name r, ms_played = ms_played r, platform = platform r\<rparr>) df"

text \<open>\<open>df.dropna(subset=["ts"])\<close>\<close>

definition dropna ::
  "(timestamp option, 'c, 'm) row_scheme list \<Rightarrow> (timestamp option, 'c, 'm) row_scheme list" where
  "dropna df = filter (\<lambda>r. ts r \<noteq> None) df"

definition add_playtime_s ::
  "(timestamp option, 'c) row list \<Rightarrow> (timestamp option, 'c) played_row list" where
  "add_playtime_s df =
     map (\<lambda>r. \<lparr>ts = ts r, artist_name = artist_name r, album_name = album_name r,
               track_name = track_name r, ms_played = ms_played r, platform = platform r,
               playtime_s = of_int (sint (ms_played r)) / 1000\<rparr>) df"

definition load_data ::
  "(string \<Rightarrow> timestamp option) \<Rightarrow> csv_file \<Rightarrow> halt + (timestamp option, cell) played_row list" where
  "load_data parse file =
     (case file of
        No_File \<Rightarrow> Inl File_Not_Found
      | Bad_File \<Rightarrow> Inl Read_Error
      | Csv_File cols rows \<Rightarrow>
          (let missing = REQUIRED_COLS - set cols in
           if missing \<noteq> {} then Inl (Missing_Columns missing)
           else Inr (add_playtime_s (dropna (to_datetime parse rows)))))"

subsection \<open>Sidebar\<close>

text \<open>\<open>Series.unique()\<close>: the distinct values in order of first appearance.\<close>

fun unique_acc :: "'a list \<Rightarrow> 'a list \<Rightarrow> 'a list" where
  "unique_acc seen [] = []"
| "unique_acc seen (x # xs) =
     (if x \<in> set seen then unique_acc seen xs else x # unique_acc (x # seen) xs)"

definition unique :: "'a list \<Rightarrow> 'a list" where
  "unique xs = unique_acc [] xs"

text \<open>
  \<open>sorted(values)\<close> on the distinct cells of a column. Python cannot compare a text
  with \<open>NaN\<close>: when the cells hold both, \<open>sorted\<close> raises \<open>TypeError\<close>. Cells
  that are all \<open>NaN\<close> compare without error and stay as they are.
\<close>

definition py_sorted :: "cell list \<Rightarrow> halt + cell list" where
  "py_sorted xs =
     (let texts = List.map_filter id xs in
      if None \<in> set xs \<and> texts \<noteq> [] then Inl Type_Error
      else if None \<in> set xs then Inr xs
      else Inr (map Some (sort texts)))"

record 'c selection =
  artists :: "'c list"
  albums :: "'c list"
  platforms :: "'c list"

text \<open>
  \<open>st.multiselect(label, options, default)\<close> returns the default until the user has
  touched the widget (\<open>None\<close>) and the user's pick afterwards. Streamlit first looks
  every default value up among the options and raises \<open>StreamlitAPIException\<close> for one
  it does not find; \<open>NaN\<close> is equal to nothing, itself included, so it is never found.
\<close>

definition multiselect :: "cell list \<Rightarrow> cell list \<Rightarrow> cell list option \<Rightarrow> halt + cell list" where
  "multiselect options dflt pick =
     (if list_all (\<lambda>v. v \<noteq> None \<and> v \<in> set options) dflt
      then Inr (case pick of None \<Rightarrow> dflt | Some chosen \<Rightarrow> chosen)
      else Inl Api_Exception)"

record picks =
  pick_artists :: "cell list option"
  pick_albums :: "cell list option"
  pick_platforms :: "cell list option"

text \<open>
  One widget of the sidebar on one column:
  \<open>st.multiselect(label, options=sorted(col.unique()), default=sorted(col.unique()))\<close>.
  The options are computed first, then the default, then the widget runs.
\<close>

definition column_multiselect :: "cell list \<Rightarrow> cell list option \<Rightarrow> halt + cell list" where
  "column_multiselect col pick =
     (case py_sorted (unique col) of
        Inl e \<Rightarrow> Inl e
      | Inr options \<Rightarrow>
          (case py_sorted (unique col) of
             Inl e \<Rightarrow> Inl e
           | Inr dflt \<Rightarrow> multiselect options dflt pick))"

text \<open>The three widgets run in order; the first exception ends the script.\<close>

definition sidebar :: "('t, cell, 'm) row_scheme list \<Rightarrow> picks \<Rightarrow> halt + cell selection" where
  "sidebar df ui =
     (case column_multiselect (map artist_name df) (pick_artists ui) of
        Inl e \<Rightarrow> Inl e
      | Inr a \<Rightarrow>
          (case column_multiselect (map album_name df) (pick_albums ui) of
             Inl e \<Rightarrow> Inl e
           | Inr b \<Rightarrow>
               (case column_multiselect (map platform df) (pick_platforms ui) of
                  Inl e \<Rightarrow> Inl e
                | Inr p \<Rightarrow> Inr \<lparr>artists = a, albums = b, platforms = p\<rparr>)))"


subsection \<open>Filter\<close>

text \<open>\<open>Series.isin(values)\<close>, \<open>mask & mask\<close> and \<open>df[mask]\<close>.\<close>

definition isin :: "'a list \<Rightarrow> 'a list \<Rightarrow> bool list" where
  "isin col vals = map (\<lambda>v. v \<in> set vals) col"

definition mask_and :: "bool list \<Rightarrow> bool list \<Rightarrow> bool list" where
  "mask_and a b = map (\<lambda>(x, y). x \<and> y) (zip a b)"

definition boolean_index :: "'r list \<Rightarrow> bool list \<Rightarrow> 'r list" where
  "boolean_index df keep = map fst (filter snd (zip df keep))"

definition filtered ::
  "('t, 'c, 'm) row_scheme list \<Rightarrow> 'c selection \<Rightarrow> ('t, 'c, 'm) row_scheme list" where
  "filtered df sel =
     boolean_index df
       (mask_and
          (mask_and (isin (map artist_name df) (artists sel))
                    (isin (map album_name df) (albums sel)))
          (isin (map platform df) (platforms sel)))"

subsection \<open>Metric\<close>

definition total_ms :: "('t, 'c, 'm) row_scheme list \<Rightarrow> int64" where
  "total_ms view = sum_list (map ms_played view)"

definition total_h :: "('t, 'c, 'm) row_scheme list \<Rightarrow> rat" where
  "total_h view = of_int (sint (total_ms view)) / 3600000"

subsection \<open>Tables\<close>

text \<open>
  \<open>groupby(key)["ms_played"].sum()\<close>: \<open>groupby\<close> sorts the group keys
  (\<open>sort=True\<close> is its default), so the Series is indexed by the distinct keys in
  ascending order.
\<close>

definition groupby_sum ::
  "(('t, 'c, 'm) row_scheme \<Rightarrow> string) \<Rightarrow> ('t, 'c, 'm) row_scheme list \<Rightarrow> (string \<times> int64) list" where
  "groupby_sum key view =
     map (\<lambda>k. (k, sum_list (map ms_played (filter (\<lambda>r. key r = k) view))))
       (sort (unique (map key view)))"

text \<open>
  \<open>Series.sort_values(ascending=False)\<close>: pandas reverses the values, sorts them
  ascending and reverses the result. \<open>val\<close> reads a value as the number it is compared
  by. The ascending sort is taken to leave equal values in place, as a stable sort does;
  pandas' default sort kind promises nothing about them, and the theorems about all views
  do not depend on their order.
\<close>

definition sort_values_desc :: "('v \<Rightarrow> 'o::linorder) \<Rightarrow> ('k \<times> 'v) list \<Rightarrow> ('k \<times> 'v) list" where
  "sort_values_desc val s = rev (sort_key (\<lambda>kv. val (snd kv)) (rev s))"

definition head :: "nat \<Rightarrow> 'a list \<Rightarrow> 'a list" where
  "head n s = take n s"

text \<open>\<open>series / 3_600_000\<close>, kept as the exact rational.\<close>

definition to_hours :: "('k \<times> int64) list \<Rightarrow> ('k \<times> rat) list" where
  "to_hours s = map (\<lambda>kv. (fst kv, of_int (sint (snd kv)) / 3600000)) s"

definition top_artists :: "('t, string, 'm) row_scheme list \<Rightarrow> (string \<times> rat) list" where
  "top_artists view = to_hours (head 10 (sort_values_desc sint (groupby_sum artist_name view)))"

definition top_tracks :: "('t, 'c, 'm) row_scheme list \<Rightarrow> (string \<times> rat) list" where
  "top_tracks view = to_hours (head 10 (sort_values_desc sint (groupby_sum track_name view)))"

subsection \<open>Charts\<close>

text \<open>\<open>Series.dt.hour\<close>: the hour of the day, \<open>NaN\<close> for \<open>NaT\<close>.\<close>

definition dt_hour :: "timestamp option \<Rightarrow> nat option" where
  "dt_hour t = map_option (\<lambda>ns. nat ((ns div 3600000000000) mod 24)) t"

text \<open>
  \<open>Series.value_counts()\<close>: missing values are dropped, the distinct values are counted
  in order of first appearance, and the counts are sorted descending.
\<close>

definition value_counts :: "'a option list \<Rightarrow> ('a \<times> nat) list" where
  "value_counts col =
     (let vals = List.map_filter id col in
      sort_values_desc id (map (\<lambda>k. (k, count_list vals k)) (unique vals)))"

definition sort_index :: "('k::linorder \<times> 'v) list \<Rightarrow> ('k \<times> 'v) list" where
  "sort_index s = sort_key fst s"

definition hourly :: "(timestamp option, 'c, 'm) row_scheme list \<Rightarrow> (nat \<times> nat) list" where
  "hourly view = sort_index (value_counts (map dt_hour (map ts view)))"

definition play5 :: "('t, 'c) played_row list \<Rightarrow> ('t, 'c) played_row list" where
  "play5 view = filter (\<lambda>r. playtime_s r \<ge> 5) view"

definition platform_counts :: "('t, string, 'm) row_scheme list \<Rightarrow> (string \<times> nat) list" where
  "platform_counts view = value_counts (map Some (map platform view))"

subsection \<open>The script\<close>

text \<open>
  The artist table and the platform counts are stated on rows whose cells hold text.
  \<open>text_cells\<close> reads a frame that way: a row with a missing artist, album or platform
  cell has no such reading. Past the sidebar no row is without one (lemma
  \<open>sidebar_text_cells\<close> below), so the view is read in full.
\<close>

definition text_row :: "('t, cell, 'm) row_scheme \<Rightarrow> ('t, string, 'm) row_scheme option" where
  "text_row r =
     (case (artist_name r, album_name r, platform r) of
        (Some a, Some b, Some p) \<Rightarrow>
          Some \<lparr>ts = ts r, artist_name = a, album_name = b, track_name = track_name r,
                ms_played = ms_played r, platform = p, \<dots> = row.more r\<rparr>
      | _ \<Rightarrow> None)"

definition text_cells :: "('t, cell, 'm) row_scheme list \<Rightarrow> ('t, string, 'm) row_scheme list" where
  "text_cells view = List.map_filter text_row view"

record page =
  metric :: rat
  artists_table :: "(string \<times> rat) list"
  tracks_table :: "(string \<times> rat) list"
  hour_chart :: "(nat \<times> nat) list"
  playtime_chart :: "(timestamp option, cell) played_row list"
  platform_chart :: "(string \<times> nat) list"
  raw_table :: "(timestamp option, cell) played_row list"

definition dashboard ::
  "(string \<Rightarrow> timestamp option) \<Rightarrow> csv_file \<Rightarrow> picks \<Rightarrow> halt + page" where
  "dashboard parse file ui =
     (case load_data parse file of
        Inl h \<Rightarrow> Inl h
      | Inr df \<Rightarrow>
          (case sidebar df ui of
             Inl e \<Rightarrow> Inl e
           | Inr sel \<Rightarrow>
               (let view = filtered df sel in
                if view = [] then Inl No_Data
                else Inr \<lparr>metric = total_h view,
                          artists_table = top_artists (text_cells view),
                          tracks_table = top_tracks view,
                          hour_chart = hourly view,
                          playtime_chart = play5 view,
                          platform_chart = platform_counts (text_cells view),
                          raw_table = view\<rparr>)))"

subsection \<open>Example data\<close>

definition example_header :: "string list" where
  "example_header = [''ts'', ''artist_name'', ''album_name'', ''track_name'', ''ms_played'', ''platform'']"

definition example_parse :: "string \<Rightarrow> timestamp option" where
  "example_parse s =
     (if s = ''2024-01-01T10:00:00'' then Some 1704103200000000000
      else if s = ''2024-01-01T10:30:00'' then Some 1704105000000000000
      else None)"

definition raw_A :: "(string, cell) row" where
  "raw_A = \<lparr>ts = ''2024-01-01T10:00:00'', artist_name = Some ''A'', album_name = Some ''X'',
            track_name = ''t1'', ms_played = 180000, platform = Some ''android''\<rparr>"

definition raw_B :: "(string, cell) row" where
  "raw_B = \<lparr>ts = ''2024-01-01T10:30:00'', artist_name = Some ''B'', album_name = Some ''Y'',
            track_name = ''t2'', ms_played = 60000, platform = Some ''ios''\<rparr>"

definition raw_bad :: "(string, cell) row" where
  "raw_bad = \<lparr>ts = ''not-a-date'', artist_name = Some ''C'', album_name = Some ''Z'',
            track_name = ''t3'', ms_played = 1000, platform = Some ''ios''\<rparr>"


definition loaded_A :: "(timestamp option, cell) played_row" where
  "loaded_A = \<lparr>ts = Some 1704103200000000000, artist_name = Some ''A'',
            album_name = Some ''X'', track_name = ''t1'', ms_played = 180000,
            platform = Some ''android'', playtime_s = 180\<rparr>"

definition loaded_B :: "(timestamp option, cell) played_row" where
  "loaded_B = \<lparr>ts = Some 1704105000000000000, artist_name = Some ''B'',
            album_name = Some ''Y'', track_name = ''t2'', ms_played = 60000,
            platform = Some ''ios'', playtime_s = 60\<rparr>"


text \<open>Rows of a view, their cells read as text.\<close>

definition row_A :: "(timestamp option, string) played_row" where
  "row_A = \<lparr>ts = Some 1704103200000000000, artist_name = ''A'', album_name = ''X'',
            track_name = ''t1'', ms_played = 180000, platform = ''android'', playtime_s = 180\<rparr>"

definition row_B :: "(timestamp option, string) played_row" where
  "row_B = \<lparr>ts = Some 1704105000000000000, artist_name = ''B'', album_name = ''Y'',
            track_name = ''t2'', ms_played = 60000, platform = ''ios'', playtime_s = 60\<rparr>"

definition row_big :: "(timestamp option, string) played_row" where
  "row_big = \<lparr>ts = Some 1704103200000000000, artist_name = ''A'', album_name = ''X'',
            track_name = ''t1'', ms_played = 4611686018427387904, platform = ''android'',
            playtime_s = 4611686018427387904 / 1000\<rparr>"

definition row_Z :: "(timestamp option, string) played_row" where
  "row_Z = \<lparr>ts = Some 1704103200000000000, artist_name = ''Z'', album_name = ''X'',
            track_name = ''t2'', ms_played = 120000, platform = ''android'', playtime_s = 120\<rparr>"

definition row_Y :: "(timestamp option, string) played_row" where
  "row_Y = \<lparr>ts = Some 1704105000000000000, artist_name = ''Y'', album_name = ''X'',
            track_name = ''t1'', ms_played = 120000, platform = ''android'', playtime_s = 120\<rparr>"

definition no_picks :: picks where
  "no_picks = \<lparr>pick_artists = None, pick_albums = None, pick_platforms = None\<rparr>"

definition no_artists :: picks where
  "no_artists = \<lparr>pick_artists = Some [], pick_albums = None, pick_platforms = None\<rparr>"

section \<open>Properties\<close>

subsection \<open>Load\<close>

lemma ts_to_datetime: "map ts (to_datetime parse rows) = map (\<lambda>r. parse (ts r)) rows"
  by (simp add: to_datetime_def)

lemma dropna_to_datetime:
  "dropna (to_datetime parse rows) = to_datetime parse (filter (\<lambda>r. parse (ts r) \<noteq> None) rows)"
  by (induction rows) (simp_all add: dropna_def to_datetime_def)

lemma length_to_datetime: "length (to_datetime parse rows) = length rows"
  by (simp add: to_datetime_def)

lemma length_add_playtime_s: "length (add_playtime_s df) = length df"
  by (simp add: add_playtime_s_def)

lemma ts_add_playtime_s: "map ts (add_playtime_s df) = map ts df"
  by (simp add: add_playtime_s_def)

lemma load_data_table:
  "REQUIRED_COLS \<subseteq> set cols \<Longrightarrow>
   load_data parse (Csv_File cols rows) =
     Inr (add_playtime_s (to_datetime parse (filter (\<lambda>r. parse (ts r) \<noteq> None) rows)))"
  by (simp add: load_data_def dropna_to_datetime Let_def)

lemma length_filter_split:
  "length (filter P xs) = length xs - length (filter (\<lambda>x. \<not> P x) xs)"
  using sum_length_filter_compl [of P xs] by simp

lemma example_header_ok: "REQUIRED_COLS \<subseteq> set example_header"
  by (simp add: REQUIRED_COLS_def example_header_def)

lemma example_load:
  "load_data example_parse (Csv_File example_header [raw_A, raw_bad, raw_B]) =
     Inr [loaded_A, loaded_B]"
  by (simp add: load_data_table [OF example_header_ok] add_playtime_s_def to_datetime_def
      example_parse_def raw_A_def raw_B_def raw_bad_def loaded_A_def loaded_B_def)

lemma example_load_bad:
  "load_data example_parse (Csv_File example_header [raw_bad]) = Inr []"
  by (simp add: load_data_table [OF example_header_ok] add_playtime_s_def to_datetime_def
      example_parse_def raw_bad_def)

text \<open>
  C7: for a table that has the required columns, \<open>load_data\<close> returns a data frame
  and stops nowhere; the rows whose \<open>ts\<close> does not parse are dropped, so the frame is
  shorter than the table by exactly their number, and the other rows are kept in source
  order with their cells unchanged and their \<open>ts\<close> parsed. When no row parses the
  result is the empty data frame, not a stop.
\<close>

theorem load_data_drops_unparsed:
  assumes "REQUIRED_COLS \<subseteq> set cols"
  shows "\<exists>df. load_data parse (Csv_File cols rows) = Inr df
    \<and> length df = length rows - length (filter (\<lambda>r. parse (ts r) = None) rows)
    \<and> map ts df = map (\<lambda>r. parse (ts r)) (filter (\<lambda>r. parse (ts r) \<noteq> None) rows)
    \<and> map (\<lambda>r. (artist_name r, album_name r, track_name r, ms_played r, platform r)) df =
        map (\<lambda>r. (artist_name r, album_name r, track_name r, ms_played r, platform r))
          (filter (\<lambda>r. parse (ts r) \<noteq> None) rows)
    \<and> ((\<forall>r \<in> set rows. parse (ts r) = None) \<longrightarrow> df = [])"
proof -
  let ?kept = "filter (\<lambda>r. parse (ts r) \<noteq> None) rows"
  let ?df = "add_playtime_s (to_datetime parse ?kept)"
  have 1: "load_data parse (Csv_File cols rows) = Inr ?df"
    using assms by (rule load_data_table)
  have 2: "length ?df = length rows - length (filter (\<lambda>r. parse (ts r) = None) rows)"
    using length_filter_split [of "\<lambda>r. parse (ts r) \<noteq> None" rows]
    by (simp add: length_add_playtime_s length_to_datetime)
  have 3: "map ts ?df = map (\<lambda>r. parse (ts r)) ?kept"
    by (simp add: ts_add_playtime_s ts_to_datetime)
  have 4: "map (\<lambda>r. (artist_name r, album_name r, track_name r, ms_played r, platform r)) ?df =
        map (\<lambda>r. (artist_name r, album_name r, track_name r, ms_played r, platform r)) ?kept"
    by (simp add: add_playtime_s_def to_datetime_def)
  have 5: "(\<forall>r \<in> set rows. parse (ts r) = None) \<longrightarrow> ?df = []"
    by (simp add: add_playtime_s_def to_datetime_def filter_empty_conv)
  from 1 2 3 4 5 show ?thesis by blast
qed

theorem load_data_drops_unparsed_witness:
  "REQUIRED_COLS \<subseteq> set example_header
   \<and> load_data example_parse (Csv_File example_header [raw_A, raw_bad, raw_B]) =
       Inr [loaded_A, loaded_B]
   \<and> load_data example_parse (Csv_File example_header [raw_bad]) = Inr []"
  using load_data_drops_unparsed [OF example_header_ok, of example_parse "[raw_A, raw_bad, raw_B]"]
    load_data_drops_unparsed [OF example_header_ok, of example_parse "[raw_bad]"]
  by (simp add: example_header_ok example_load example_load_bad)

lemma load_data_Inr:
  assumes "load_data parse file = Inr df"
  shows "\<forall>r \<in> set df. ts r \<noteq> None"
proof -
  from assms obtain cols rows where
    df: "df = add_playtime_s (dropna (to_datetime parse rows))"
    by (auto simp: load_data_def Let_def split: csv_file.splits if_splits)
  have "set (map ts df) \<subseteq> {t. t \<noteq> None}"
    unfolding df ts_add_playtime_s by (auto simp: dropna_def)
  then show ?thesis by auto
qed

lemma dt_hour_Some: "dt_hour (Some t) = Some h \<Longrightarrow> h < 24"
  by (auto simp: dt_hour_def)

lemma map_filter_all_Some:
  "\<forall>x \<in> set xs. x \<noteq> None \<Longrightarrow> length (List.map_filter id xs) = length xs"
  by (induction xs) (auto simp: List.map_filter_simps)

text \<open>
  C9: every row of a data frame returned by \<open>load_data\<close> has a parsed timestamp, so
  \<open>dt.hour\<close> gives an hour between 0 and 23 for each of them and no row is lost
  when the hours are extracted.
\<close>

theorem loaded_rows_have_hour:
  assumes "load_data parse file = Inr df"
  shows "(\<forall>r \<in> set df. \<exists>t h. ts r = Some t \<and> dt_hour (ts r) = Some h \<and> h < 24)
    \<and> length (List.map_filter id (map dt_hour (map ts df))) = length df"
proof -
  have ok: "\<forall>r \<in> set df. ts r \<noteq> None"
    using assms by (rule load_data_Inr)
  have a: "\<forall>r \<in> set df. \<exists>t h. ts r = Some t \<and> dt_hour (ts r) = Some h \<and> h < 24"
  proof
    fix r assume "r \<in> set df"
    with ok obtain t where t: "ts r = Some t" by auto
    obtain h where h: "dt_hour (Some t) = Some h" by (simp add: dt_hour_def)
    with t dt_hour_Some [OF h] show "\<exists>t h. ts r = Some t \<and> dt_hour (ts r) = Some h \<and> h < 24"
      by simp
  qed
  have "\<forall>x \<in> set (map dt_hour (map ts df)). x \<noteq> None"
    using a by auto
  then have "length (List.map_filter id (map dt_hour (map ts df))) = length df"
    using map_filter_all_Some by fastforce
  with a show ?thesis by blast
qed

theorem loaded_rows_have_hour_witness:
  "load_data example_parse (Csv_File example_header [raw_A, raw_bad, raw_B]) =
     Inr [loaded_A, loaded_B]
   \<and> dt_hour (ts loaded_A) = Some 10 \<and> dt_hour (ts loaded_B) = Some 10"
  using loaded_rows_have_hour [OF example_load]
  by (simp add: example_load dt_hour_def loaded_A_def loaded_B_def)

subsection \<open>Filter\<close>

lemma boolean_index_map: "boolean_index df (map P df) = filter P df"
  by (induction df) (simp_all add: boolean_index_def)

lemma mask_and_map: "mask_and (map P xs) (map Q xs) = map (\<lambda>x. P x \<and> Q x) xs"
  by (induction xs) (simp_all add: mask_and_def)

lemma isin_map: "isin (map f df) vals = map (\<lambda>r. f r \<in> set vals) df"
  by (simp add: isin_def)

lemma filtered_filter:
  "filtered df sel =
     filter (\<lambda>r. artist_name r \<in> set (artists sel) \<and> album_name r \<in> set (albums sel)
                 \<and> platform r \<in> set (platforms sel)) df"
  by (simp add: filtered_def isin_map mask_and_map boolean_index_map conj_assoc)

lemma set_unique_acc: "set (unique_acc seen xs) = set xs - set seen"
  by (induction seen xs rule: unique_acc.induct) auto

lemma distinct_unique_acc: "distinct (unique_acc seen xs)"
  by (induction seen xs rule: unique_acc.induct) (auto simp: set_unique_acc)

lemma set_unique: "set (unique xs) = set xs"
  by (simp add: unique_def set_unique_acc)

lemma distinct_unique: "distinct (unique xs)"
  by (simp add: unique_def distinct_unique_acc)

lemma map_Some_map_filter: "None \<notin> set xs \<Longrightarrow> map Some (List.map_filter id xs) = xs"
proof (induction xs)
  case Nil
  then show ?case by simp
next
  case (Cons x xs)
  then obtain y where "x = Some y" by (cases x) auto
  with Cons show ?case by simp
qed

lemma set_py_sorted: "py_sorted xs = Inr ys \<Longrightarrow> set ys = set xs"
proof -
  assume r: "py_sorted xs = Inr ys"
  show ?thesis
  proof (cases "None \<in> set xs")
    case True
    with r show ?thesis
      by (simp add: py_sorted_def Let_def split: if_splits)
  next
    case False
    with r have "ys = map Some (sort (List.map_filter id xs))"
      by (simp add: py_sorted_def Let_def)
    then have "set ys = set (map Some (List.map_filter id xs))"
      by simp
    then show ?thesis
      using map_Some_map_filter [OF False] by simp
  qed
qed



lemma column_multiselect_present:
  assumes "column_multiselect col pick = Inr xs"
  shows "None \<notin> set col"
proof -
  from assms obtain dflt where d: "py_sorted (unique col) = Inr dflt"
    and ok: "list_all (\<lambda>v. v \<noteq> None \<and> v \<in> set dflt) dflt"
    by (auto simp: column_multiselect_def multiselect_def split: sum.splits if_splits)
  from ok have "None \<notin> set dflt"
    by (auto simp: list_all_iff)
  moreover from d have "set dflt = set (unique col)"
    by (rule set_py_sorted)
  ultimately show ?thesis
    by (simp add: set_unique)
qed



lemma sidebar_present:
  assumes "sidebar df ui = Inr sel"
  shows "\<forall>r \<in> set df. artist_name r \<noteq> None \<and> album_name r \<noteq> None \<and> platform r \<noteq> None"
proof -
  from assms obtain a b p where
    a: "column_multiselect (map artist_name df) (pick_artists ui) = Inr a" and
    b: "column_multiselect (map album_name df) (pick_albums ui) = Inr b" and
    p: "column_multiselect (map platform df) (pick_platforms ui) = Inr p"
    by (auto simp: sidebar_def split: sum.splits)
  from column_multiselect_present [OF a] column_multiselect_present [OF b]
    column_multiselect_present [OF p]
  show ?thesis by force
qed

lemma text_cells_present:
  "\<forall>r \<in> set view. artist_name r \<noteq> None \<and> album_name r \<noteq> None \<and> platform r \<noteq> None \<Longrightarrow>
   length (text_cells view) = length view"
  by (induction view) (auto simp: text_cells_def text_row_def split: option.splits)

lemma sidebar_text_cells:
  assumes "sidebar df ui = Inr sel"
  shows "length (text_cells (filtered df sel)) = length (filtered df sel)"
proof (rule text_cells_present)
  show "\<forall>r \<in> set (filtered df sel).
          artist_name r \<noteq> None \<and> album_name r \<noteq> None \<and> platform r \<noteq> None"
    using sidebar_present [OF assms] by (simp add: filtered_filter)
qed







text \<open>
  C5: when at least one of the three selection lists is empty, the filtered view is empty:
  an empty selection lets nothing pass.
\<close>

theorem filtered_empty_component:
  "artists sel = [] \<or> albums sel = [] \<or> platforms sel = [] \<Longrightarrow> filtered df sel = []"
  by (auto simp add: filtered_filter)

theorem filtered_empty_component_witness:
  "filtered [row_A, row_B] \<lparr>artists = [''A'', ''B''], albums = [], platforms = [''android'', ''ios'']\<rparr> = []"
  using filtered_empty_component [of "\<lparr>artists = [''A'', ''B''], albums = [], platforms = [''android'', ''ios'']\<rparr>" "[row_A, row_B]"]
  by simp

text \<open>
  C6: a row is in the filtered view exactly when it is in the data frame and its artist,
  album and platform each belong to the corresponding selection; the view is the data
  frame with the other rows removed, so it is a subsequence of the frame in which every
  passing row occurrence is kept once, in frame order.
\<close>

theorem filtered_iff_subseq:
  "(r \<in> set (filtered df sel) \<longleftrightarrow>
      r \<in> set df \<and> artist_name r \<in> set (artists sel) \<and> album_name r \<in> set (albums sel)
        \<and> platform r \<in> set (platforms sel))
   \<and> subseq (filtered df sel) df
   \<and> filtered df sel =
       filter (\<lambda>r. artist_name r \<in> set (artists sel) \<and> album_name r \<in> set (albums sel)
                   \<and> platform r \<in> set (platforms sel)) df"
  by (simp add: filtered_filter)

theorem filtered_iff_subseq_witness:
  "filtered [row_A, row_B, row_A] \<lparr>artists = [''A''], albums = [''X'', ''Y''], platforms = [''android'']\<rparr>
     = [row_A, row_A]
   \<and> subseq [row_A, row_A] [row_A, row_B, row_A]"
  using filtered_iff_subseq [of row_A "[row_A, row_B, row_A]"
     "\<lparr>artists = [''A''], albums = [''X'', ''Y''], platforms = [''android'']\<rparr>"]
  by (simp add: row_A_def row_B_def)

subsection \<open>Series helpers\<close>

lemma mset_sort_values_desc: "mset (sort_values_desc val s) = mset s"
  by (simp add: sort_values_desc_def)

lemma set_sort_values_desc: "set (sort_values_desc val s) = set s"
  by (simp add: sort_values_desc_def)

lemma descending_sort_values_desc:
  "sorted (rev (map (\<lambda>kv. val (snd kv)) (sort_values_desc val s)))"
  by (simp add: sort_values_desc_def rev_map)

lemma mset_sort_index: "mset (sort_index s) = mset s"
  by (simp add: sort_index_def)

lemma sorted_sort_index: "sorted (map fst (sort_index s))"
  by (simp add: sort_index_def)

lemma sum_list_mset_cong: "mset xs = mset ys \<Longrightarrow> sum_list (map f xs) = sum_list (map f ys)"
  for f :: "'a \<Rightarrow> 'b::comm_monoid_add"
  by (metis mset_map sum_mset_sum_list)

lemma sum_count_list_unique: "sum_list (map (count_list xs) (unique xs)) = length xs"
proof -
  have "sum_list (map (count_list xs) (unique xs)) = sum (count_list xs) (set (unique xs))"
    by (rule sum_list_distinct_conv_sum_set) (rule distinct_unique)
  also have "\<dots> = length xs"
    by (simp add: set_unique sum_count_set)
  finally show ?thesis .
qed

lemma mset_value_counts:
  "mset (value_counts col) =
     mset (map (\<lambda>k. (k, count_list (List.map_filter id col) k)) (unique (List.map_filter id col)))"
  by (simp add: value_counts_def Let_def mset_sort_values_desc)

lemma sum_value_counts:
  "sum_list (map snd (value_counts col)) = length (List.map_filter id col)"
proof -
  let ?vals = "List.map_filter id col"
  have "sum_list (map snd (value_counts col)) =
        sum_list (map snd (map (\<lambda>k. (k, count_list ?vals k)) (unique ?vals)))"
    by (rule sum_list_mset_cong) (rule mset_value_counts)
  also have "\<dots> = sum_list (map (count_list ?vals) (unique ?vals))"
    by (simp add: comp_def)
  finally show ?thesis by (simp add: sum_count_list_unique)
qed

lemma keys_value_counts:
  "mset (map fst (value_counts col)) = mset (unique (List.map_filter id col))"
proof -
  have "mset (map fst (value_counts col)) = image_mset fst (mset (value_counts col))"
    by simp
  also have "\<dots> = mset (map fst (map (\<lambda>k. (k, count_list (List.map_filter id col) k))
                       (unique (List.map_filter id col))))"
    unfolding mset_value_counts by (simp add: multiset.map_comp)
  finally show ?thesis by (simp add: comp_def)
qed

lemma distinct_keys_value_counts: "distinct (map fst (value_counts col))"
  using keys_value_counts [of col] distinct_unique mset_eq_imp_distinct_iff by blast

lemma set_keys_value_counts: "set (map fst (value_counts col)) = set (List.map_filter id col)"
  using keys_value_counts [of col] by (metis mset_eq_setD set_unique)

lemma entry_value_counts:
  "(k, c) \<in> set (value_counts col) \<Longrightarrow>
     k \<in> set (List.map_filter id col) \<and> c = count_list (List.map_filter id col) k"
proof -
  assume "(k, c) \<in> set (value_counts col)"
  then have "(k, c) \<in> set (map (\<lambda>k. (k, count_list (List.map_filter id col) k))
                       (unique (List.map_filter id col)))"
    using mset_value_counts [of col] by (metis mset_eq_setD)
  then show ?thesis by (auto simp: set_unique)
qed




subsection \<open>Platform counts\<close>




subsection \<open>Hourly histogram\<close>

lemma hours_of_view:
  "set (List.map_filter id (map dt_hour (map ts view))) =
     {h. \<exists>r \<in> set view. dt_hour (ts r) = Some h}"
  by (induction view) (auto split: option.splits)

lemma count_hours_of_view:
  "count_list (List.map_filter id (map dt_hour (map ts view))) h =
     length (filter (\<lambda>r. dt_hour (ts r) = Some h) view)"
  by (induction view) (auto split: option.splits)

lemma dt_hour_lt: "dt_hour t = Some h \<Longrightarrow> h < 24"
  by (cases t) (auto simp: dt_hour_def)

lemma distinct_below_24:
  assumes "distinct (hs :: nat list)" "\<forall>h \<in> set hs. h < 24"
  shows "length hs \<le> 24"
proof -
  have "card (set hs) \<le> card {..<24::nat}"
    using assms(2) by (intro card_mono) auto
  with assms(1) show ?thesis by (simp add: distinct_card)
qed

lemma hourly_example: "hourly [row_A] = [(10, 1)]"
  by (simp add: hourly_def value_counts_def sort_values_desc_def sort_index_def unique_def
      List.map_filter_simps dt_hour_def row_A_def)

lemma hourly_example2: "hourly [row_A, row_B] = [(10, 2)]"
  by (simp add: hourly_def value_counts_def sort_values_desc_def sort_index_def unique_def
      List.map_filter_simps dt_hour_def row_A_def row_B_def)

text \<open>
  C1, as the script computes it: \<open>value_counts\<close> lists only the hours that occur, so
  the histogram is sparse. For a view whose rows all have a parsed timestamp (every loaded
  row has one), the histogram has one entry for each hour of the day that occurs in the
  view, in ascending hour order and each hour once, hence at most 24 entries with hours
  between 0 and 23; each count is the positive number of rows at that hour, hours without
  plays have no entry, and the counts add up to the number of rows of the view.
\<close>

theorem hourly_sparse_histogram:
  assumes "\<forall>r \<in> set view. ts r \<noteq> None"
  shows "sorted (map fst (hourly view)) \<and> distinct (map fst (hourly view))
    \<and> set (map fst (hourly view)) = {h. \<exists>r \<in> set view. dt_hour (ts r) = Some h}
    \<and> (\<forall>(h, c) \<in> set (hourly view).
          h < 24 \<and> 0 < c \<and> c = length (filter (\<lambda>r. dt_hour (ts r) = Some h) view))
    \<and> length (hourly view) \<le> 24
    \<and> sum_list (map snd (hourly view)) = length view"
proof -
  let ?col = "map dt_hour (map ts view)"
  let ?vals = "List.map_filter id ?col"
  have perm: "mset (hourly view) = mset (value_counts ?col)"
    by (simp add: hourly_def mset_sort_index)
  have 1: "sorted (map fst (hourly view))"
    by (simp add: hourly_def sorted_sort_index)
  have keys: "mset (map fst (hourly view)) = mset (map fst (value_counts ?col))"
    using perm by (metis mset_map)
  have 2: "distinct (map fst (hourly view))"
    using keys distinct_keys_value_counts [of ?col] mset_eq_imp_distinct_iff by blast
  have "set (map fst (hourly view)) = set (map fst (value_counts ?col))"
    using keys by (rule mset_eq_setD)
  then have 3: "set (map fst (hourly view)) = {h. \<exists>r \<in> set view. dt_hour (ts r) = Some h}"
    by (simp only: set_keys_value_counts hours_of_view)
  have 4: "\<forall>(h, c) \<in> set (hourly view).
          h < 24 \<and> 0 < c \<and> c = length (filter (\<lambda>r. dt_hour (ts r) = Some h) view)"
  proof (clarify)
    fix h c assume "(h, c) \<in> set (hourly view)"
    then have "(h, c) \<in> set (value_counts ?col)"
      using perm by (metis mset_eq_setD)
    then have in_vals: "h \<in> set ?vals" and c: "c = count_list ?vals h"
      using entry_value_counts [of h c ?col] by simp_all
    from in_vals obtain r where "r \<in> set view" "dt_hour (ts r) = Some h"
      unfolding hours_of_view by blast
    then have "h < 24" by (simp add: dt_hour_lt)
    moreover have "count_list ?vals h \<noteq> 0"
      using in_vals by (simp only: count_list_0_iff not_not)
    then have "0 < c" using c by simp
    moreover have "c = length (filter (\<lambda>r. dt_hour (ts r) = Some h) view)"
      using c by (simp only: count_hours_of_view)
    ultimately show "h < 24 \<and> 0 < c \<and> c = length (filter (\<lambda>r. dt_hour (ts r) = Some h) view)"
      by blast
  qed
  have "\<forall>h \<in> set (map fst (hourly view)). h < 24"
    using 3 dt_hour_lt by auto
  with 2 have "length (map fst (hourly view)) \<le> 24"
    by (rule distinct_below_24)
  then have 5: "length (hourly view) \<le> 24" by simp
  have "\<forall>x \<in> set ?col. x \<noteq> None"
    using assms by (auto simp: dt_hour_def)
  then have full: "length ?vals = length view"
    using map_filter_all_Some [of ?col] by simp
  have "sum_list (map snd (hourly view)) = sum_list (map snd (value_counts ?col))"
    using perm by (rule sum_list_mset_cong)
  then have 6: "sum_list (map snd (hourly view)) = length view"
    by (simp only: sum_value_counts full)
  from 1 2 3 4 5 6 show ?thesis by blast
qed

theorem hourly_sparse_histogram_witness:
  "ts row_A \<noteq> None \<and> ts row_B \<noteq> None \<and> hourly [row_A, row_B] = [(10, 2)]
   \<and> sum_list (map snd (hourly [row_A, row_B])) = length [row_A, row_B]"
proof -
  have a: "ts row_A \<noteq> None" and b: "ts row_B \<noteq> None"
    by (simp_all add: row_A_def row_B_def)
  then have h: "\<forall>r \<in> set [row_A, row_B]. ts r \<noteq> None"
    by simp
  from hourly_sparse_histogram [OF h] a b show ?thesis
    by (simp add: hourly_example2)
qed

text \<open>
  C1 as stated (always exactly 24 entries, zero counts included) fails: a view with a
  single play at 10:00 has a histogram of one entry.
\<close>

theorem hourly_dense_counterexample:
  "hourly [row_A] = [(10, 1)] \<and> length (hourly [row_A]) \<noteq> 24"
  by (simp add: hourly_example)

subsection \<open>Total playtime\<close>

lemma sum_list_int64: "sum_list ws = (word_of_int (sum_list (map sint ws)) :: int64)"
  by (induction ws) simp_all

lemma sint_sum_list_int64:
  assumes "- (2 ^ 63) \<le> sum_list (map sint (ws :: int64 list))"
    and "sum_list (map sint ws) < 2 ^ 63"
  shows "sint (sum_list ws) = sum_list (map sint ws)"
proof -
  have "sint (sum_list ws) = sint (word_of_int (sum_list (map sint ws)) :: int64)"
    using sum_list_int64 [of ws] by simp
  also have "\<dots> = signed_take_bit 63 (sum_list (map sint ws))"
    by (simp add: signed_of_int)
  also have "\<dots> = sum_list (map sint ws)"
    using assms by (rule signed_take_bit_int_eq_self)
  finally show ?thesis .
qed

text \<open>
  C8, as the script computes it: \<open>ms_played\<close> is an \<open>int64\<close> column and its sum is an
  \<open>int64\<close>. For every view whose exact sum of \<open>ms_played\<close> lies in the signed 64-bit
  range, the total is that exact integer sum, and the metric is the sum divided by
  3,600,000 (the division is the only non-integer step; it is exact here, a float in the
  script).
\<close>

theorem total_h_exact:
  assumes "- (2 ^ 63) \<le> sum_list (map (\<lambda>r. sint (ms_played r)) view)"
    and "sum_list (map (\<lambda>r. sint (ms_played r)) view) < 2 ^ 63"
  shows "sint (total_ms view) = sum_list (map (\<lambda>r. sint (ms_played r)) view)
    \<and> total_h view = of_int (sum_list (map (\<lambda>r. sint (ms_played r)) view)) / 3600000"
proof -
  have m: "map sint (map ms_played view) = map (\<lambda>r. sint (ms_played r)) view"
    by simp
  have "sint (total_ms view) = sum_list (map sint (map ms_played view))"
    unfolding total_ms_def using assms by (intro sint_sum_list_int64) (simp_all only: m)
  then have "sint (total_ms view) = sum_list (map (\<lambda>r. sint (ms_played r)) view)"
    by (simp only: m)
  then show ?thesis by (simp add: total_h_def)
qed

text \<open>
  The view of the scenario, 180000 ms and 60000 ms: the total is 240000 ms, that is 1/15 h,
  which lies in the interval that rounds to 0.0667 at four decimals and in the interval
  that rounds to 0.1 at one decimal.
\<close>

theorem total_h_exact_witness:
  "- (2 ^ 63) \<le> sum_list (map (\<lambda>r. sint (ms_played r)) [row_A, row_B])
   \<and> sum_list (map (\<lambda>r. sint (ms_played r)) [row_A, row_B]) < 2 ^ 63
   \<and> sint (total_ms [row_A, row_B]) = 240000
   \<and> total_h [row_A, row_B] = 1 / 15
   \<and> 6665 / 100000 \<le> total_h [row_A, row_B] \<and> total_h [row_A, row_B] < 6675 / 100000
   \<and> 5 / 100 \<le> total_h [row_A, row_B] \<and> total_h [row_A, row_B] < 15 / 100"
proof -
  have s: "sum_list (map (\<lambda>r. sint (ms_played r)) [row_A, row_B]) = 240000"
    by (simp add: row_A_def row_B_def)
  have lo: "- (2 ^ 63) \<le> sum_list (map (\<lambda>r. sint (ms_played r)) [row_A, row_B])"
    and hi: "sum_list (map (\<lambda>r. sint (ms_played r)) [row_A, row_B]) < 2 ^ 63"
    unfolding s by simp_all
  from total_h_exact [OF lo hi] lo hi show ?thesis
    unfolding s by simp
qed

text \<open>
  C8 as stated (for every view) fails when the \<open>int64\<close> sum wraps around: two rows of
  \<open>2^62\<close> ms each have the exact sum \<open>2^63\<close>, and the script's total is \<open>-2^63\<close>.
\<close>

theorem total_h_overflow_counterexample:
  "sum_list (map (\<lambda>r. sint (ms_played r)) [row_big, row_big]) = 9223372036854775808
   \<and> sint (total_ms [row_big, row_big]) = - 9223372036854775808
   \<and> total_h [row_big, row_big] = - 9223372036854775808 / 3600000
   \<and> total_h [row_big, row_big]
       \<noteq> of_int (sum_list (map (\<lambda>r. sint (ms_played r)) [row_big, row_big])) / 3600000"
  by (simp add: total_h_def total_ms_def row_big_def)

subsection \<open>Empty view\<close>

lemma aggregates_Nil:
  "total_ms [] = 0" "total_h [] = 0" "top_artists [] = []" "top_tracks [] = []"
  "hourly [] = []" "platform_counts [] = []"
  by (simp_all add: total_ms_def total_h_def top_artists_def top_tracks_def hourly_def
      platform_counts_def groupby_sum_def value_counts_def sort_values_desc_def head_def
      to_hours_def sort_index_def unique_def)

lemma example_load2:
  "load_data example_parse (Csv_File example_header [raw_A, raw_B]) = Inr [loaded_A, loaded_B]"
  by (simp add: load_data_table [OF example_header_ok] add_playtime_s_def to_datetime_def
      example_parse_def raw_A_def raw_B_def loaded_A_def loaded_B_def)

lemma example_sidebar_no_artists:
  "sidebar [loaded_A, loaded_B] no_artists =
     Inr \<lparr>artists = [], albums = [Some ''X'', Some ''Y''],
          platforms = [Some ''android'', Some ''ios'']\<rparr>"
  by (simp add: sidebar_def column_multiselect_def py_sorted_def multiselect_def unique_def
      no_artists_def loaded_A_def loaded_B_def less_eq_char_def less_char_def list_le_def)

lemma example_sidebar_empty: "sidebar [] no_picks = Inr \<lparr>artists = [], albums = [], platforms = []\<rparr>"
  by (simp add: sidebar_def column_multiselect_def py_sorted_def multiselect_def unique_def
      no_picks_def)

lemma example_load_empty:
  "load_data example_parse (Csv_File example_header []) = Inr []"
  by (simp add: load_data_table [OF example_header_ok] add_playtime_s_def to_datetime_def)

text \<open>
  C3, as the script behaves: when the file has loaded, the sidebar has given a selection
  and the filtered view is empty, the script does not fail; it shows the warning and stops
  there, before any aggregate is computed. The aggregate expressions themselves are
  defined on the empty view: total 0 ms and 0 h, empty Top-10 tables, no platform counts,
  and an hourly histogram without entries.
\<close>

theorem empty_view_stops:
  assumes "load_data parse file = Inr df" and "sidebar df ui = Inr sel"
    and "filtered df sel = []"
  shows "dashboard parse file ui = Inl No_Data
    \<and> total_ms (filtered df sel) = 0
    \<and> total_h (filtered df sel) = 0
    \<and> top_artists (text_cells (filtered df sel)) = []
    \<and> top_tracks (filtered df sel) = []
    \<and> hourly (filtered df sel) = []
    \<and> platform_counts (text_cells (filtered df sel)) = []"
  using assms by (simp add: dashboard_def aggregates_Nil text_cells_def)

theorem empty_view_stops_witness:
  "load_data example_parse (Csv_File example_header [raw_A, raw_B]) = Inr [loaded_A, loaded_B]
   \<and> sidebar [loaded_A, loaded_B] no_artists =
       Inr \<lparr>artists = [], albums = [Some ''X'', Some ''Y''],
            platforms = [Some ''android'', Some ''ios'']\<rparr>
   \<and> filtered [loaded_A, loaded_B]
        \<lparr>artists = [], albums = [Some ''X'', Some ''Y''],
         platforms = [Some ''android'', Some ''ios'']\<rparr> = []
   \<and> dashboard example_parse (Csv_File example_header [raw_A, raw_B]) no_artists = Inl No_Data"
proof -
  have e: "filtered [loaded_A, loaded_B]
        \<lparr>artists = [], albums = [Some ''X'', Some ''Y''],
         platforms = [Some ''android'', Some ''ios'']\<rparr> = []"
    by (simp add: filtered_filter)
  from empty_view_stops [OF example_load2 example_sidebar_no_artists e] e show ?thesis
    by (simp add: example_load2 example_sidebar_no_artists)
qed

text \<open>
  C3 as stated fails: on a header-only file the script stops with the warning instead of
  returning an aggregate, and the hourly histogram of the empty view has no entries, not
  24 zero entries.
\<close>

theorem empty_view_aggregate_counterexample:
  "dashboard example_parse (Csv_File example_header []) no_picks = Inl No_Data
   \<and> hourly ([] :: (timestamp option, cell) played_row list) = []
   \<and> length (hourly ([] :: (timestamp option, cell) played_row list)) \<noteq> 24"
  by (simp add: dashboard_def example_load_empty example_sidebar_empty filtered_filter
      aggregates_Nil)

subsection \<open>Top-10 tables\<close>

lemma keys_groupby_sum: "map fst (groupby_sum key view) = sort (unique (map key view))"
  by (simp add: groupby_sum_def comp_def)

lemma distinct_keys_groupby_sum: "distinct (map fst (groupby_sum key view))"
  by (simp add: keys_groupby_sum distinct_unique)

lemma set_keys_groupby_sum: "set (map fst (groupby_sum key view)) = key ` set view"
  by (simp add: keys_groupby_sum set_unique)

lemma entry_groupby_sum:
  "(k, v) \<in> set (groupby_sum key view) \<Longrightarrow>
     k \<in> key ` set view \<and> v = sum_list (map ms_played (filter (\<lambda>r. key r = k) view))"
  by (auto simp: groupby_sum_def set_unique)

lemma length_groupby_sum: "length (groupby_sum key view) = card (key ` set view)"
proof -
  have "length (groupby_sum key view) = length (unique (map key view))"
    by (simp add: groupby_sum_def)
  also have "\<dots> = card (set (unique (map key view)))"
    by (simp add: distinct_card distinct_unique)
  finally show ?thesis by (simp add: set_unique)
qed

lemma sort_unique_cong:
  assumes "set xs = set ys"
  shows "sort (unique xs) = sort (unique (ys :: 'a::linorder list))"
proof (rule sorted_distinct_set_unique)
  show "set (sort (unique xs)) = set (sort (unique ys))"
    using assms by (simp add: set_unique)
qed (simp_all add: distinct_unique)

lemma groupby_sum_mset:
  assumes "mset view = mset view'"
  shows "groupby_sum key view = groupby_sum key view'"
proof -
  have "set view = set view'"
    using assms by (rule mset_eq_setD)
  then have keys: "sort (unique (map key view)) = sort (unique (map key view'))"
    by (intro sort_unique_cong) simp
  have sums: "sum_list (map ms_played (filter P view)) = sum_list (map ms_played (filter P view'))"
    for P
  proof (rule sum_list_mset_cong)
    show "mset (filter P view) = mset (filter P view')"
      using assms by simp
  qed
  show ?thesis
    unfolding groupby_sum_def keys by (simp add: sums)
qed

lemma fst_to_hours: "map fst (to_hours s) = map fst s"
  by (simp add: to_hours_def comp_def)

lemma snd_to_hours: "map snd (to_hours s) = map (\<lambda>kv. of_int (sint (snd kv)) / 3600000) s"
  by (simp add: to_hours_def comp_def)

lemma entry_to_hours:
  "(k, h) \<in> set (to_hours s) \<Longrightarrow> \<exists>v. (k, v) \<in> set s \<and> h = of_int (sint v) / 3600000"
  by (auto simp: to_hours_def)

lemma hours_mono:
  assumes "sint a \<le> sint b"
  shows "(of_int (sint a) / 3600000 :: rat) \<le> of_int (sint b) / 3600000"
proof (rule divide_right_mono)
  show "(of_int (sint a) :: rat) \<le> of_int (sint b)"
    using assms by (simp only: of_int_le_iff)
  show "(0 :: rat) \<le> 3600000" by simp
qed

lemma descending_sorted_wrt:
  "sorted_wrt (\<lambda>x y. val (snd y) \<le> val (snd x)) (sort_values_desc val s)"
proof -
  have "sorted_wrt (\<le>) (rev (map (\<lambda>kv. val (snd kv)) (sort_values_desc val s)))"
    using descending_sort_values_desc [of val s] by simp
  then show ?thesis
    by (simp only: sorted_wrt_rev sorted_wrt_map)
qed

lemma distinct_keys_sort_values_desc:
  "distinct (map fst s) \<Longrightarrow> distinct (map fst (sort_values_desc val s))"
proof -
  assume d: "distinct (map fst s)"
  have "mset (map fst (sort_values_desc val s)) = mset (map fst s)"
    by (simp add: mset_sort_values_desc)
  with d show ?thesis
    using mset_eq_imp_distinct_iff by blast
qed

lemma kept_above_cut:
  fixes S :: "('k \<times> int64) list"
  assumes "sorted_wrt (\<lambda>x y. sint (snd y) \<le> sint (snd x)) (take n S @ drop n S)"
    and "(k', v') \<in> set (take n S)" and "(k, v) \<in> set (drop n S)"
  shows "sint v \<le> sint v'"
proof -
  have "sint (snd (k, v)) \<le> sint (snd (k', v'))"
    using assms unfolding sorted_wrt_append by blast
  then show ?thesis by (simp only: snd_conv)
qed

lemma ranking_props:
  fixes key :: "('t, 'c, 'm) row_scheme \<Rightarrow> string" and view :: "('t, 'c, 'm) row_scheme list"
  defines "tab \<equiv> to_hours (head 10 (sort_values_desc sint (groupby_sum key view)))"
  shows "sorted_wrt (\<ge>) (map snd tab)"
    and "distinct (map fst tab)"
    and "length tab = min 10 (card (key ` set view))"
    and "\<forall>(k, h) \<in> set tab. k \<in> key ` set view
           \<and> h = of_int (sint (sum_list (map ms_played (filter (\<lambda>r. key r = k) view)))) / 3600000"
    and "\<forall>k \<in> key ` set view - fst ` set tab. \<forall>(k', h') \<in> set tab.
           of_int (sint (sum_list (map ms_played (filter (\<lambda>r. key r = k) view)))) / 3600000 \<le> h'"
proof -
  let ?G = "groupby_sum key view"
  let ?S = "sort_values_desc sint ?G"
  let ?T = "take 10 ?S"
  have tab: "tab = to_hours ?T"
    by (simp add: tab_def head_def)
  have desc: "sorted_wrt (\<lambda>x y. sint (snd y) \<le> sint (snd x)) ?S"
    by (rule descending_sorted_wrt)
  have "sorted_wrt (\<lambda>x y. sint (snd y) \<le> sint (snd x)) ?T"
    using desc by (rule sorted_wrt_take)
  then have "sorted_wrt (\<lambda>x y. (of_int (sint (snd y)) / 3600000 :: rat)
                 \<le> of_int (sint (snd x)) / 3600000) ?T"
    by (rule sorted_wrt_mono_rel [rotated]) (rule hours_mono)
  then show "sorted_wrt (\<ge>) (map snd tab)"
    by (simp add: tab snd_to_hours sorted_wrt_map)
  have dS: "distinct (map fst ?S)"
    by (rule distinct_keys_sort_values_desc) (rule distinct_keys_groupby_sum)
  then have "distinct (take 10 (map fst ?S))"
    by (rule distinct_take)
  then show "distinct (map fst tab)"
    by (simp add: tab fst_to_hours take_map)
  have "length ?S = card (key ` set view)"
    using length_groupby_sum [of key view] by (simp add: sort_values_desc_def)
  then show "length tab = min 10 (card (key ` set view))"
    by (simp add: tab to_hours_def min.commute)
  have inS: "(k, v) \<in> set ?S \<Longrightarrow>
      k \<in> key ` set view \<and> v = sum_list (map ms_played (filter (\<lambda>r. key r = k) view))" for k v
    using entry_groupby_sum [of k v key view] by (simp add: set_sort_values_desc)
  show "\<forall>(k, h) \<in> set tab. k \<in> key ` set view
           \<and> h = of_int (sint (sum_list (map ms_played (filter (\<lambda>r. key r = k) view)))) / 3600000"
  proof (clarify)
    fix k h assume "(k, h) \<in> set tab"
    then have "(k, h) \<in> set (to_hours ?T)" by (simp only: tab)
    from entry_to_hours [OF this]
    obtain v where v: "(k, v) \<in> set ?T" and h: "h = of_int (sint v) / 3600000"
      by blast
    from v have "(k, v) \<in> set ?S" by (rule in_set_takeD)
    with inS h show "k \<in> key ` set view
           \<and> h = of_int (sint (sum_list (map ms_played (filter (\<lambda>r. key r = k) view)))) / 3600000"
      by blast
  qed
  have split: "sorted_wrt (\<lambda>x y. sint (snd y) \<le> sint (snd x)) (?T @ drop 10 ?S)"
    using desc by simp
  show "\<forall>k \<in> key ` set view - fst ` set tab. \<forall>(k', h') \<in> set tab.
           of_int (sint (sum_list (map ms_played (filter (\<lambda>r. key r = k) view)))) / 3600000 \<le> h'"
  proof (clarify)
    fix r k' h'
    assume r: "r \<in> set view" and out: "key r \<notin> fst ` set tab" and e: "(k', h') \<in> set tab"
    let ?k = "key r"
    from e have "(k', h') \<in> set (to_hours ?T)" by (simp only: tab)
    from entry_to_hours [OF this]
    obtain v' where v': "(k', v') \<in> set ?T" and h': "h' = of_int (sint v') / 3600000"
      by blast
    have "?k \<in> set (map fst ?S)"
      using r set_keys_groupby_sum [of key view] mset_sort_values_desc [of sint ?G]
      by (metis (no_types, lifting) image_eqI mset_eq_setD mset_map)
    then obtain v where v: "(?k, v) \<in> set ?S" by auto
    have "(?k, v) \<notin> set ?T"
    proof
      assume "(?k, v) \<in> set ?T"
      then have "?k \<in> set (map fst (to_hours ?T))"
        unfolding fst_to_hours by force
      with out show False by (simp add: tab)
    qed
    with v have dropped: "(?k, v) \<in> set (drop 10 ?S)"
      by (metis Un_iff append_take_drop_id set_append)
    from split v' dropped have "sint v \<le> sint v'"
      by (rule kept_above_cut)
    moreover have "v = sum_list (map ms_played (filter (\<lambda>x. key x = ?k) view))"
      using inS v by blast
    ultimately show "of_int (sint (sum_list (map ms_played (filter (\<lambda>x. key x = ?k) view)))) / 3600000 \<le> h'"
      using h' hours_mono by blast
  qed
qed

lemma top_artists_ZY: "top_artists [row_Z, row_Y] = [(''Y'', 1 / 30), (''Z'', 1 / 30)]"
  by (simp add: top_artists_def groupby_sum_def sort_values_desc_def head_def to_hours_def
      unique_def row_Z_def row_Y_def less_eq_char_def less_char_def list_le_def)

lemma top_artists_YZ: "top_artists [row_Y, row_Z] = [(''Y'', 1 / 30), (''Z'', 1 / 30)]"
  by (simp add: top_artists_def groupby_sum_def sort_values_desc_def head_def to_hours_def
      unique_def row_Z_def row_Y_def less_eq_char_def less_char_def list_le_def)

lemma top_tracks_ZY: "top_tracks [row_Z, row_Y] = [(''t1'', 1 / 30), (''t2'', 1 / 30)]"
  by (simp add: top_tracks_def groupby_sum_def sort_values_desc_def head_def to_hours_def
      unique_def row_Z_def row_Y_def less_eq_char_def less_char_def list_le_def)

text \<open>
  C2, as the script computes it: the Top-10 artist table (and likewise the track table)
  lists distinct names of the view, each with the hours of the \<open>int64\<close> sum of
  \<open>ms_played\<close> over the rows of that name, in descending order of hours; it has
  \<open>min 10 n\<close> entries for \<open>n\<close> distinct names, and no name left out has more hours than
  a listed one. The table is computed from the grouped sums, whose index is in ascending
  name order, so it is the same for every reordering of the rows of the view: the order
  among equal sums does not follow first appearance in the view.
\<close>

theorem top_n_ranking:
  fixes view :: "('t, string, 'm) row_scheme list"
  shows "sorted_wrt (\<ge>) (map snd (top_artists view))
    \<and> distinct (map fst (top_artists view))
    \<and> length (top_artists view) = min 10 (card (artist_name ` set view))
    \<and> (\<forall>(a, h) \<in> set (top_artists view). a \<in> artist_name ` set view
          \<and> h = of_int (sint (sum_list (map ms_played (filter (\<lambda>r. artist_name r = a) view)))) / 3600000)
    \<and> (\<forall>a \<in> artist_name ` set view - fst ` set (top_artists view). \<forall>(a', h') \<in> set (top_artists view).
          of_int (sint (sum_list (map ms_played (filter (\<lambda>r. artist_name r = a) view)))) / 3600000 \<le> h')
    \<and> (\<forall>view'. mset view' = mset view \<longrightarrow> top_artists view' = top_artists view)
    \<and> sorted_wrt (\<ge>) (map snd (top_tracks view))
    \<and> distinct (map fst (top_tracks view))
    \<and> length (top_tracks view) = min 10 (card (track_name ` set view))
    \<and> (\<forall>(t, h) \<in> set (top_tracks view). t \<in> track_name ` set view
          \<and> h = of_int (sint (sum_list (map ms_played (filter (\<lambda>r. track_name r = t) view)))) / 3600000)
    \<and> (\<forall>t \<in> track_name ` set view - fst ` set (top_tracks view). \<forall>(t', h') \<in> set (top_tracks view).
          of_int (sint (sum_list (map ms_played (filter (\<lambda>r. track_name r = t) view)))) / 3600000 \<le> h')
    \<and> (\<forall>view'. mset view' = mset view \<longrightarrow> top_tracks view' = top_tracks view)"
proof -
  note a = ranking_props [of artist_name view, folded top_artists_def]
  note t = ranking_props [of track_name view, folded top_tracks_def]
  have pa: "\<forall>view'. mset view' = mset view \<longrightarrow> top_artists view' = top_artists view"
  proof (intro allI impI)
    fix view' :: "('t, string, 'm) row_scheme list"
    assume "mset view' = mset view"
    then have "groupby_sum artist_name view' = groupby_sum artist_name view"
      by (rule groupby_sum_mset)
    then show "top_artists view' = top_artists view"
      by (simp only: top_artists_def)
  qed
  have pt: "\<forall>view'. mset view' = mset view \<longrightarrow> top_tracks view' = top_tracks view"
  proof (intro allI impI)
    fix view' :: "('t, string, 'm) row_scheme list"
    assume "mset view' = mset view"
    then have "groupby_sum track_name view' = groupby_sum track_name view"
      by (rule groupby_sum_mset)
    then show "top_tracks view' = top_tracks view"
      by (simp only: top_tracks_def)
  qed
  show ?thesis
    by (intro conjI) (rule a t pa pt)+
qed

theorem top_n_ranking_witness:
  "mset [row_Y, row_Z] = mset [row_Z, row_Y]
   \<and> top_artists [row_Y, row_Z] = top_artists [row_Z, row_Y]
   \<and> top_artists [row_Z, row_Y] = [(''Y'', 1 / 30), (''Z'', 1 / 30)]
   \<and> sorted_wrt (\<ge>) (map snd (top_artists [row_Z, row_Y]))"
proof -
  have m: "mset [row_Y, row_Z] = mset [row_Z, row_Y]"
    by (simp add: add_mset_commute)
  from top_n_ranking [of "[row_Z, row_Y]"] m show ?thesis
    by (simp add: top_artists_ZY top_artists_YZ)
qed

text \<open>
  C2 as stated (ties in order of first appearance) fails: with 120000 ms each for "Z" and
  "Y", the artist table is the same whether "Z" or "Y" comes first in the view, and it
  lists "Y" before "Z" also when "Z" appears first. The track table does the same with
  tracks "t2" (first in the view) and "t1".
\<close>

theorem top_n_tie_counterexample:
  "artist_name (hd [row_Z, row_Y]) = ''Z''
   \<and> top_artists [row_Z, row_Y] = [(''Y'', 1 / 30), (''Z'', 1 / 30)]
   \<and> top_artists [row_Y, row_Z] = [(''Y'', 1 / 30), (''Z'', 1 / 30)]
   \<and> track_name (hd [row_Z, row_Y]) = ''t2''
   \<and> top_tracks [row_Z, row_Y] = [(''t1'', 1 / 30), (''t2'', 1 / 30)]"
proof -
  have "artist_name (hd [row_Z, row_Y]) = ''Z''" and "track_name (hd [row_Z, row_Y]) = ''t2''"
    by (simp_all add: row_Z_def)
  then show ?thesis
    by (simp only: top_artists_ZY top_artists_YZ top_tracks_ZY simp_thms)
qed

end
